theory Spec2Isabelle
  imports Complex_Main "HOL-Library.AList"
begin

section \<open>Python values shared by all components\<close>

text \<open>
  Exceptions are values. An exception carries its class and the text that \<open>str(e)\<close>
  gives for it; only subclasses of \<open>Exception\<close> occur (the ones an
  \<open>except Exception\<close> clause catches).
\<close>

datatype exn_class =
  ValueError | KeyError | IndexError | ZeroDivisionError | RuntimeError
  | ResourceExhausted | ServiceError

datatype exn = Exn exn_class string

fun str_exn :: "exn \<Rightarrow> string" where
  "str_exn (Exn c msg) = msg"

text \<open>
  Truthiness of an \<open>Optional[str]\<close> argument, as tested by \<open>if rewritten_text:\<close>,
  \<open>if summary:\<close> and \<open>if error:\<close>: \<open>None\<close> and the empty string are both false.
\<close>

fun truthy :: "string option \<Rightarrow> bool" where
  "truthy None = False"
| "truthy (Some s) = (s \<noteq> [])"

subsection \<open>Decimal text of integers\<close>

text \<open>
  \<open>str(i)\<close> of a Python integer, and \<open>int(s)\<close> of a string. \<open>py_int\<close> covers an
  optional sign followed by one or more ASCII digits and raises \<open>ValueError\<close> on
  everything else; the further spellings Python accepts (surrounding white space,
  underscores between digits, non-ASCII digits) lie outside this model.
\<close>

definition digit_char :: "nat \<Rightarrow> char" where
  "digit_char d = ''0123456789'' ! d"

function digits :: "nat \<Rightarrow> string" where
  "digits n = (if n < 10 then [digit_char n] else digits (n div 10) @ [digit_char (n mod 10)])"
  by pat_completeness auto
termination
  by (relation "measure (\<lambda>n. n)") auto

definition py_str :: "int \<Rightarrow> string" where
  "py_str i = (if i < 0 then CHR ''-'' # digits (nat (- i)) else digits (nat i))"

definition is_digit :: "char \<Rightarrow> bool" where
  "is_digit c = (c \<in> set ''0123456789'')"

definition digit_val :: "char \<Rightarrow> nat" where
  "digit_val c = length (takeWhile (\<lambda>d. d \<noteq> c) ''0123456789'')"

fun digits_val :: "nat \<Rightarrow> string \<Rightarrow> nat" where
  "digits_val acc [] = acc"
| "digits_val acc (c # cs) = digits_val (10 * acc + digit_val c) cs"

definition parse_digits :: "string \<Rightarrow> string \<Rightarrow> exn + nat" where
  "parse_digits whole ds =
     (if ds \<noteq> [] \<and> list_all is_digit ds then Inr (digits_val 0 ds)
      else Inl (Exn ValueError (''invalid literal for int() with base 10: '' @ whole)))"

fun py_int :: "string \<Rightarrow> exn + int" where
  "py_int [] = map_sum id int (parse_digits [] [])"
| "py_int (c # cs) =
     (if c = CHR ''-'' then map_sum id (\<lambda>n. - int n) (parse_digits (c # cs) cs)
      else if c = CHR ''+'' then map_sum id int (parse_digits (c # cs) cs)
      else map_sum id int (parse_digits (c # cs) (c # cs)))"

section \<open>The chapter store (core/project\_manager.py)\<close>

text \<open>
  One chapter record of \<open>project_state.json\<close>, as \<open>_initialize_project_state\<close> writes
  it. The JSON field \<open>id\<close> is named \<open>chapter_id\<close> here; \<open>error\<close> is \<open>None\<close> for
  JSON \<open>null\<close>.
\<close>

record chapter_data =
  chapter_id :: string
  title :: string
  status :: string
  original_text :: string
  rewritten_text_file :: string
  summary :: string
  error :: "string option"

text \<open>
  The state dictionary. \<open>chapters\<close> is the JSON object keyed by the decimal chapter
  number, kept as an association list in the dictionary's own order.
\<close>

record project_state =
  projectName :: string
  totalChapters :: int
  chapters :: "(string \<times> chapter_data) list"

text \<open>
  What a \<open>ProjectManager\<close> sees on disk: the state file (\<open>None\<close> when it does not
  exist), the files of the rewritten-text directory by name, and the number of times
  \<open>save_state\<close> has written the state file.
\<close>

record project =
  state_file :: "project_state option"
  rewritten_txt :: "string \<rightharpoonup> string"
  state_saves :: nat

text \<open>\<open>load_state\<close> returns the empty dictionary when the file is missing.\<close>

definition load_state :: "project \<Rightarrow> project_state option" where
  "load_state p = state_file p"

definition save_state :: "project_state \<Rightarrow> project \<Rightarrow> project" where
  "save_state st p = p\<lparr>state_file := Some st, state_saves := Suc (state_saves p)\<rparr>"

text \<open>
  \<open>update_chapter_state\<close>. Subscripting the empty dictionary with \<open>'chapters'\<close>
  raises \<open>KeyError\<close>; a key that is not in the chapter map skips the whole body.
\<close>

definition update_chapter_state ::
  "int \<Rightarrow> string \<Rightarrow> string option \<Rightarrow> string option \<Rightarrow> string option \<Rightarrow> project
     \<Rightarrow> exn + project" where
  "update_chapter_state chapter_index new_status rewritten_text new_summary new_error p =
     (case load_state p of
        None \<Rightarrow> Inl (Exn KeyError ''chapters'')
      | Some st \<Rightarrow>
          (let chapter_key = py_str chapter_index in
           case map_of (chapters st) chapter_key of
             None \<Rightarrow> Inr p
           | Some ch \<Rightarrow>
               (let ch1 = ch\<lparr>status := new_status\<rparr>;
                    p1 = (if truthy rewritten_text
                          then p\<lparr>rewritten_txt :=
                                 (rewritten_txt p)(rewritten_text_file ch1 \<mapsto> the rewritten_text)\<rparr>
                          else p);
                    ch2 = (if truthy new_summary then ch1\<lparr>summary := the new_summary\<rparr> else ch1);
                    ch3 = (if truthy new_error then ch2\<lparr>error := new_error\<rparr> else ch2)
                in Inr (save_state (st\<lparr>chapters := AList.update chapter_key ch3 (chapters st)\<rparr>) p1))))"

text \<open>
  The record of chapter \<open>i\<close> in the persisted state, if there is one: what
  \<open>load_state()['chapters'].get(str(i))\<close> reads.
\<close>

definition get_chapter :: "project \<Rightarrow> int \<Rightarrow> chapter_data option" where
  "get_chapter p i =
     (case load_state p of None \<Rightarrow> None | Some st \<Rightarrow> map_of (chapters st) (py_str i))"

text \<open>
  \<open>_initialize_project_state\<close>: the extraction collaborator supplies the chapters
  as \<open>{title, original_text, id}\<close> records; chapter \<open>i\<close> (counted from 0) is stored
  under the key \<open>str(i + 1)\<close>, pending, with an empty summary and no error. The file
  name is \<open>chapter_{i+1:03d}.txt\<close>.
\<close>

record extracted_chapter =
  src_title :: string
  src_original_text :: string
  src_id :: string

definition zfill3 :: "string \<Rightarrow> string" where
  "zfill3 s = replicate (3 - length s) (CHR ''0'') @ s"

definition initial_entry :: "nat \<Rightarrow> extracted_chapter \<Rightarrow> string \<times> chapter_data" where
  "initial_entry i chap =
     (py_str (int i + 1),
      \<lparr>chapter_id = src_id chap, title = src_title chap, status = ''pending'',
       original_text = src_original_text chap,
       rewritten_text_file = ''chapter_'' @ zfill3 (py_str (int i + 1)) @ ''.txt'',
       summary = [], error = None\<rparr>)"

definition initialize_project_state :: "string \<Rightarrow> extracted_chapter list \<Rightarrow> project \<Rightarrow> project" where
  "initialize_project_state name chaps p =
     save_state
       \<lparr>projectName = name, totalChapters = int (length chaps),
        chapters = map (\<lambda>(i, chap). initial_entry i chap) (enumerate 0 chaps)\<rparr> p"

subsection \<open>Selecting the pending chapters\<close>

text \<open>
  \<open>sorted(state['chapters'], key=lambda x: int(x))\<close> evaluates \<open>int\<close> on every key,
  in the dictionary's order, before it sorts; the first key that is not a number raises.
  The sort is stable. Each key is kept with the number computed for it, which is the
  value \<open>int(chapter_key)\<close> the loop body computes again.
\<close>

fun parse_keys :: "string list \<Rightarrow> exn + (int \<times> string) list" where
  "parse_keys [] = Inr []"
| "parse_keys (k # ks) =
     (case py_int k of
        Inl e \<Rightarrow> Inl e
      | Inr i \<Rightarrow> (case parse_keys ks of Inl e \<Rightarrow> Inl e | Inr r \<Rightarrow> Inr ((i, k) # r)))"

text \<open>
  The loop of \<open>get_pending_chapters\<close> over the sorted keys, with its two accumulators
  \<open>pending\<close> and \<open>count\<close>. A returned element \<open>{'index': chapter_index, **data}\<close> is the
  pair of the index and the record.
\<close>

fun pending_loop ::
  "int \<Rightarrow> int \<Rightarrow> int \<Rightarrow> (string \<times> chapter_data) list \<Rightarrow> (int \<times> string) list
     \<Rightarrow> (int \<times> chapter_data) list \<Rightarrow> int \<Rightarrow> exn + (int \<times> chapter_data) list" where
  "pending_loop max_chapters_to_run start_chapter end_chapter chs [] pending count = Inr pending"
| "pending_loop max_chapters_to_run start_chapter end_chapter chs
       ((chapter_index, chapter_key) # ks) pending count =
     (if chapter_index < start_chapter
      then pending_loop max_chapters_to_run start_chapter end_chapter chs ks pending count
      else if end_chapter \<noteq> 0 \<and> chapter_index > end_chapter
      then pending_loop max_chapters_to_run start_chapter end_chapter chs ks pending count
      else
        (case map_of chs chapter_key of
           None \<Rightarrow> Inl (Exn KeyError chapter_key)
         | Some data \<Rightarrow>
             (if status data = ''pending''
              then
                (if max_chapters_to_run = 0 \<or> count < max_chapters_to_run
                 then pending_loop max_chapters_to_run start_chapter end_chapter chs ks
                        (pending @ [(chapter_index, data)]) (count + 1)
                 else pending_loop max_chapters_to_run start_chapter end_chapter chs ks
                        pending count)
              else pending_loop max_chapters_to_run start_chapter end_chapter chs ks
                     pending count)))"

definition get_pending_chapters ::
  "int \<Rightarrow> int \<Rightarrow> int \<Rightarrow> project \<Rightarrow> exn + (int \<times> chapter_data) list" where
  "get_pending_chapters max_chapters_to_run start_chapter end_chapter p =
     (case load_state p of
        None \<Rightarrow> Inl (Exn KeyError ''chapters'')
      | Some st \<Rightarrow>
          (case parse_keys (map fst (chapters st)) of
             Inl e \<Rightarrow> Inl e
           | Inr parsed \<Rightarrow>
               pending_loop max_chapters_to_run start_chapter end_chapter (chapters st)
                 (sort_key fst parsed) [] 0))"

text \<open>
  The selection as the specification words it: the chapters with their indices, in
  ascending index order, those that are pending and inside the range, capped at
  \<open>maxCount\<close> (0 for no cap).
\<close>

definition indexed_chapters :: "project_state \<Rightarrow> (int \<times> chapter_data) list" where
  "indexed_chapters st = map (\<lambda>(k, d). (projr (py_int k), d)) (chapters st)"

definition in_range :: "int \<Rightarrow> int \<Rightarrow> int \<Rightarrow> bool" where
  "in_range start_index end_index i = (start_index \<le> i \<and> (end_index = 0 \<or> i \<le> end_index))"

definition pending_spec ::
  "int \<Rightarrow> int \<Rightarrow> int \<Rightarrow> project_state \<Rightarrow> (int \<times> chapter_data) list" where
  "pending_spec max_count start_index end_index st =
     (let selected =
            filter (\<lambda>(i, d). status d = ''pending'' \<and> in_range start_index end_index i)
              (sort_key fst (indexed_chapters st))
      in if max_count = 0 then selected else take (nat max_count) selected)"

text \<open>The cap of \<open>get_pending_chapters\<close> seen from inside the loop, \<open>count\<close> chapters in.\<close>

definition cap :: "int \<Rightarrow> int \<Rightarrow> 'a list \<Rightarrow> 'a list" where
  "cap mx count xs = (if mx = 0 then xs else take (nat (mx - count)) xs)"


text \<open>
  Well-formed chapter maps: every key is a number and no two keys denote the same
  index (the data model's \<open>index values are unique\<close>).
\<close>

definition unique_indices :: "project_state \<Rightarrow> bool" where
  "unique_indices st =
     (case parse_keys (map fst (chapters st)) of
        Inl e \<Rightarrow> False
      | Inr parsed \<Rightarrow> distinct (map fst parsed))"

section \<open>Rolling context (core/context\_manager.py)\<close>

text \<open>
  \<open>get_rolling_context\<close> only reads: it loads the state and returns a string.
  A missing state file, a missing \<open>chapters\<close> entry and a missing previous chapter all
  end in the same sentinel.
\<close>

definition get_rolling_context :: "project \<Rightarrow> int \<Rightarrow> string" where
  "get_rolling_context p current_chapter_index =
     (if current_chapter_index \<le> 1 then ''This is the first chapter.''
      else
        (let previous_chapter_key = py_str (current_chapter_index - 1);
             previous_chapter =
               (case load_state p of None \<Rightarrow> None
                | Some st \<Rightarrow> map_of (chapters st) previous_chapter_key)
         in case previous_chapter of
              None \<Rightarrow> ''No summary available for the previous chapter.''
            | Some ch \<Rightarrow>
                (if summary ch \<noteq> [] then ''Context from Previous Chapter: '' @ summary ch
                 else ''No summary available for the previous chapter.'')))"

section \<open>Rate limiter (ai\_providers/base\_provider.py)\<close>

text \<open>
  The limiter's fields are Python floats; they are modelled as exact reals, so rounding
  is outside the model. \<open>_lock\<close> is left out: the model runs one \<open>wait\<close> at a time.
\<close>

record RateLimiter =
  tpm_capacity :: real
  tokens :: real
  refill_rate_per_second :: real
  last_refill_time :: real
  rpm_delay :: real
  concurrent_calls :: int
  last_call_time :: real

text \<open>The constructor; \<open>now\<close> is the reading of \<open>time.monotonic()\<close> it takes.\<close>

definition RateLimiter_init :: "int \<Rightarrow> int \<Rightarrow> int \<Rightarrow> real \<Rightarrow> RateLimiter" where
  "RateLimiter_init tpm_limit rpm_limit concurrent now =
     \<lparr>tpm_capacity = real_of_int tpm_limit,
      tokens = real_of_int tpm_limit,
      refill_rate_per_second = real_of_int tpm_limit / 60,
      last_refill_time = now,
      rpm_delay = (if rpm_limit > 0 then 60 / real_of_int rpm_limit else 0),
      concurrent_calls = concurrent,
      last_call_time = 0\<rparr>"

definition refill :: "real \<Rightarrow> RateLimiter \<Rightarrow> RateLimiter" where
  "refill now r =
     (let elapsed = now - last_refill_time r
      in r\<lparr>tokens := min (tpm_capacity r) (tokens r + elapsed * refill_rate_per_second r),
           last_refill_time := now\<rparr>)"

text \<open>
  Time is a monotonic clock that the model carries next to the limiter. What the
  environment decides about one \<open>wait\<close> call is how much time passes: before the call
  reads the clock first (\<open>arrive\<close>), beyond the requested duration of each of the two
  sleeps, and between one clock reading and the next (\<open>step\<close>).
\<close>

record latency =
  arrive :: real
  rpm_oversleep :: real
  tpm_oversleep :: real
  step :: real


text \<open>The last two statements of \<open>wait\<close>: the deduction and the record of the call time.\<close>

definition deduct :: "int \<Rightarrow> latency \<Rightarrow> RateLimiter \<times> real \<Rightarrow> RateLimiter \<times> real" where
  "deduct tokens_to_consume lat rc =
     (let r = fst rc; t = snd rc + step lat
      in (r\<lparr>tokens := tokens r - real_of_int tokens_to_consume, last_call_time := t\<rparr>, t))"

text \<open>
  \<open>wait\<close> returns whether it raised, the bucket level after each assignment to
  \<open>self.tokens\<close> in the order they happen, the limiter and the clock. Dividing by a
  refill rate of zero raises \<open>ZeroDivisionError\<close>, after the first refill has been
  stored.
\<close>

definition wait ::
  "int \<Rightarrow> latency \<Rightarrow> RateLimiter \<times> real \<Rightarrow> (exn + unit) \<times> real list \<times> RateLimiter \<times> real" where
  "wait tokens_to_consume lat rc =
     (let r = fst rc;
          now = snd rc + arrive lat;
          time_since_last_call = now - last_call_time r;
          after_rpm = (if time_since_last_call < rpm_delay r
                       then now + (rpm_delay r - time_since_last_call) + rpm_oversleep lat
                       else now);
          t1 = after_rpm + step lat;
          r1 = refill t1 r
      in if real_of_int tokens_to_consume > tokens r1
         then
           (if refill_rate_per_second r1 = 0
            then (Inl (Exn ZeroDivisionError ''float division by zero''), [tokens r1], r1, t1)
            else
              (let required_tokens = real_of_int tokens_to_consume - tokens r1;
                   wait_time = required_tokens / refill_rate_per_second r1
               in if wait_time > 0
                  then
                    (let t2 = t1 + wait_time + tpm_oversleep lat + step lat;
                         r2 = refill t2 r1;
                         done = deduct tokens_to_consume lat (r2, t2)
                     in (Inr (), [tokens r1, tokens r2, tokens (fst done)], done))
                  else
                    (let done = deduct tokens_to_consume lat (r1, t1)
                     in (Inr (), [tokens r1, tokens (fst done)], done))))
         else
           (let done = deduct tokens_to_consume lat (r1, t1)
            in (Inr (), [tokens r1, tokens (fst done)], done)))"


definition no_latency :: latency where
  "no_latency = \<lparr>arrive = 0, rpm_oversleep = 0, tpm_oversleep = 0, step = 0\<rparr>"





section \<open>Providers (ai\_providers)\<close>

subsection \<open>The abstract provider and its retry wrapper\<close>

text \<open>
  A provider is its two abstract methods and its retry configuration. The methods act on
  a state \<open>'s\<close> that stands for the remote service and the client objects; each returns
  either the exception it raises or its value, and the state after the call.
\<close>

record 's AIProvider =
  perform_rewrite :: "string \<Rightarrow> real \<Rightarrow> 's \<Rightarrow> (exn + string) \<times> 's"
  count_tokens :: "string \<Rightarrow> 's \<Rightarrow> (exn + int) \<times> 's"
  retry_attempts :: int
  retry_delay :: real

text \<open>
  What \<open>rewrite_chapter\<close> does to the world is recorded in order: each invocation of
  \<open>_perform_rewrite\<close> with its arguments, and each \<open>asyncio.sleep\<close> of the retry loop
  with its duration.
\<close>

datatype event = Request string real | Sleep real

record 's session =
  service :: 's
  rate_limiter :: RateLimiter
  clock :: real
  events :: "event list"

text \<open>
  The loop \<open>for attempt in range(self.retry_attempts + 1)\<close>, entered at \<open>attempt\<close>.
  A sleep of a non-positive duration returns at once. Falling out of the loop raises
  the \<open>RuntimeError\<close> of the last line.
\<close>

function retry_loop ::
  "'s AIProvider \<Rightarrow> string \<Rightarrow> real \<Rightarrow> int \<Rightarrow> 's session \<Rightarrow> (exn + string) \<times> 's session" where
  "retry_loop P prompt temperature attempt w =
     (if attempt < retry_attempts P + 1
      then
        (case perform_rewrite P prompt temperature (service w) of
           (Inr response, s') \<Rightarrow>
             (Inr response, w\<lparr>service := s', events := events w @ [Request prompt temperature]\<rparr>)
         | (Inl e, s') \<Rightarrow>
             (if attempt < retry_attempts P
              then
                (let wait_time = retry_delay P * 2 ^ nat attempt
                 in retry_loop P prompt temperature (attempt + 1)
                      (w\<lparr>service := s',
                         clock := clock w + max 0 wait_time,
                         events := events w @ [Request prompt temperature, Sleep wait_time]\<rparr>))
              else (Inl e, w\<lparr>service := s', events := events w @ [Request prompt temperature]\<rparr>)))
      else (Inl (Exn RuntimeError
                  ''rewrite_chapter failed to return a response after all retries.''), w))"
  by pat_completeness auto
termination
  by (relation "measure (\<lambda>(P, prompt, temperature, attempt, w). nat (retry_attempts P + 1 - attempt))")
     auto

declare retry_loop.simps [simp del]

text \<open>
  \<open>rewrite_chapter\<close>: the token estimate, the limiter, then the loop from attempt 0.
  An exception of \<open>count_tokens\<close> or of \<open>wait\<close> leaves before any attempt is made.
\<close>

definition rewrite_chapter ::
  "'s AIProvider \<Rightarrow> latency \<Rightarrow> string \<Rightarrow> real \<Rightarrow> 's session \<Rightarrow> (exn + string) \<times> 's session" where
  "rewrite_chapter P lat prompt temperature w =
     (case count_tokens P prompt (service w) of
        (Inl e, s') \<Rightarrow> (Inl e, w\<lparr>service := s'\<rparr>)
      | (Inr n, s') \<Rightarrow>
          (let estimated_total_tokens = n * 2 in
           case wait estimated_total_tokens lat (rate_limiter w, clock w) of
             (Inl e, obs, r', t') \<Rightarrow> (Inl e, w\<lparr>service := s', rate_limiter := r', clock := t'\<rparr>)
           | (Inr u, obs, r', t') \<Rightarrow>
               retry_loop P prompt temperature 0
                 (w\<lparr>service := s', rate_limiter := r', clock := t'\<rparr>)))"




subsection \<open>OpenAI (openai\_provider.py)\<close>

text \<open>
  The client: \<open>chat.completions.create\<close> answers with the message contents of its
  choices (a content may be \<open>None\<close>) or raises; the \<open>tiktoken\<close> encoder returns the token
  list or raises. Neither library is part of the repository, so both are parameters.
\<close>

record 's openai_client =
  chat_completions_create :: "string \<Rightarrow> (string \<times> string) list \<Rightarrow> real \<Rightarrow> 's
                                \<Rightarrow> (exn + string option list) \<times> 's"
  tokenizer_encode :: "string \<Rightarrow> exn + nat list"

definition openai_messages :: "string \<Rightarrow> (string \<times> string) list" where
  "openai_messages prompt =
     [(''system'', ''You are a master literary editor. Follow the user's instructions precisely.''),
      (''user'', prompt)]"

text \<open>
  \<open>response.choices[0].message.content or ""\<close>: an empty list of choices raises
  \<open>IndexError\<close>; a content that is \<open>None\<close> or empty becomes the empty string.
\<close>

definition openai_perform_rewrite ::
  "'s openai_client \<Rightarrow> string \<Rightarrow> string \<Rightarrow> real \<Rightarrow> 's \<Rightarrow> (exn + string) \<times> 's" where
  "openai_perform_rewrite client model_name prompt temperature s =
     (case chat_completions_create client model_name (openai_messages prompt) temperature s of
        (Inl e, s') \<Rightarrow> (Inl e, s')
      | (Inr choices, s') \<Rightarrow>
          (case choices of
             [] \<Rightarrow> (Inl (Exn IndexError ''list index out of range''), s')
           | content # rest \<Rightarrow> (Inr (if truthy content then the content else []), s')))"

definition openai_count_tokens :: "'s openai_client \<Rightarrow> string \<Rightarrow> 's \<Rightarrow> (exn + int) \<times> 's" where
  "openai_count_tokens client txt s =
     (case tokenizer_encode client txt of
        Inl e \<Rightarrow> (Inl e, s)
      | Inr toks \<Rightarrow> (Inr (int (length toks)), s))"

definition OpenAIProvider :: "'s openai_client \<Rightarrow> string \<Rightarrow> int \<Rightarrow> real \<Rightarrow> 's AIProvider" where
  "OpenAIProvider client model_name attempts delay =
     \<lparr>perform_rewrite = openai_perform_rewrite client model_name,
      count_tokens = openai_count_tokens client,
      retry_attempts = attempts, retry_delay = delay\<rparr>"

subsection \<open>Gemini and AI Studio (gemini\_provider.py, aistudio\_provider.py)\<close>

text \<open>
  A response of \<open>generate_content_async\<close>: its parts, the name of the block reason when
  \<open>prompt_feedback\<close> is set, and what the \<open>text\<close> accessor gives (it may raise).
\<close>

record generate_response =
  parts :: "string list"
  prompt_feedback :: "string option"
  response_text :: "exn + string"

record 's genai_model =
  generate_content_async :: "string \<Rightarrow> real \<Rightarrow> 's \<Rightarrow> (exn + generate_response) \<times> 's"
  count_tokens_async :: "string \<Rightarrow> 's \<Rightarrow> (exn + int) \<times> 's"

text \<open>
  Both classes have the same body up to the wording of the message; both \<open>except\<close>
  clauses re-raise what they caught.
\<close>

definition genai_perform_rewrite ::
  "string \<Rightarrow> 's genai_model \<Rightarrow> string \<Rightarrow> real \<Rightarrow> 's \<Rightarrow> (exn + string) \<times> 's" where
  "genai_perform_rewrite label model prompt temperature s =
     (case generate_content_async model prompt temperature s of
        (Inl e, s') \<Rightarrow> (Inl e, s')
      | (Inr response, s') \<Rightarrow>
          (if parts response = []
           then
             (let finish_reason =
                    (case prompt_feedback response of Some reason \<Rightarrow> reason | None \<Rightarrow> ''UNKNOWN'')
              in (Inl (Exn ValueError
                         (label @ '' response was empty or blocked. Reason: '' @ finish_reason)), s'))
           else (response_text response, s')))"

definition genai_count_tokens :: "'s genai_model \<Rightarrow> string \<Rightarrow> 's \<Rightarrow> (exn + int) \<times> 's" where
  "genai_count_tokens model txt s =
     (case count_tokens_async model txt s of
        (Inl e, s') \<Rightarrow> (Inr (int (length txt) div 4), s')
      | (Inr total_tokens, s') \<Rightarrow> (Inr total_tokens, s'))"

definition GeminiProvider :: "'s genai_model \<Rightarrow> int \<Rightarrow> real \<Rightarrow> 's AIProvider" where
  "GeminiProvider model attempts delay =
     \<lparr>perform_rewrite = genai_perform_rewrite ''Gemini'' model,
      count_tokens = genai_count_tokens model,
      retry_attempts = attempts, retry_delay = delay\<rparr>"

definition AIStudioProvider :: "'s genai_model \<Rightarrow> int \<Rightarrow> real \<Rightarrow> 's AIProvider" where
  "AIStudioProvider model attempts delay =
     \<lparr>perform_rewrite = genai_perform_rewrite ''AI Studio'' model,
      count_tokens = genai_count_tokens model,
      retry_attempts = attempts, retry_delay = delay\<rparr>"

section \<open>Orchestrator (core/orchestrator.py, core/context\_manager.py)\<close>

text \<open>
  \<open>str.strip()\<close> removes white space at both ends; of the characters Python counts as
  white space the ASCII ones are modelled.
\<close>

definition is_space :: "char \<Rightarrow> bool" where
  "is_space c =
     (c \<in> set [CHR 0x09, CHR 0x0A, CHR 0x0B, CHR 0x0C, CHR 0x0D,
                CHR 0x1C, CHR 0x1D, CHR 0x1E, CHR 0x1F, CHR 0x20])"

definition strip :: "string \<Rightarrow> string" where
  "strip s = rev (dropWhile is_space (rev (dropWhile is_space s)))"

text \<open>
  An orchestrator: its provider, the latencies its limiter meets, the cap on chapters
  per run, and the three texts that go into every prompt besides the chapter. The
  glossary text is what \<open>get_glossary_as_text\<close> returns; \<open>format_prompt\<close> stands for
  loading the template and \<open>base_template.format\<close> with the four named fields
  \<open>style_reference\<close>, \<open>context_glossary\<close>, \<open>rolling_context\<close>, \<open>chapter_text\<close>, and
  may raise.
\<close>

record 's orchestrator =
  ai_provider :: "'s AIProvider"
  network :: latency
  max_chapters :: int
  styleReferenceText :: string
  glossary :: string
  format_prompt :: "string \<Rightarrow> string \<Rightarrow> string \<Rightarrow> string \<Rightarrow> exn + string"

text \<open>
  The state of a run: the provider session, the project on disk, and the chapters
  announced on the console by \<open>Starting Chapter\<close>, in order.
\<close>

record 's run_state =
  ai :: "'s session"
  proj :: project
  console :: "int list"

definition newline :: string where
  "newline = [CHR 0x0A]"

definition summary_prompt :: "string \<Rightarrow> string" where
  "summary_prompt rewritten_text =
     newline @ ''Summarize the following book chapter in 2-4 sentences. Focus on the key events, character developments, and the state of things at the very end of the chapter. This summary will be used as context for rewriting the next chapter.''
     @ newline @ newline @ ''CHAPTER TEXT:'' @ newline @ ''---'' @ newline @ rewritten_text
     @ newline @ ''---'' @ newline @ newline @ ''SUMMARY:'' @ newline"

text \<open>\<open>generate_chapter_summary\<close> never raises: a failed request gives the empty summary.\<close>

definition generate_chapter_summary ::
  "'s orchestrator \<Rightarrow> string \<Rightarrow> 's run_state \<Rightarrow> string \<times> 's run_state" where
  "generate_chapter_summary orch rewritten_text w =
     (case rewrite_chapter (ai_provider orch) (network orch) (summary_prompt rewritten_text) (3 / 10) (ai w) of
        (Inr s, a') \<Rightarrow> (strip s, w\<lparr>ai := a'\<rparr>)
      | (Inl e, a') \<Rightarrow> ([], w\<lparr>ai := a'\<rparr>))"

definition build_master_prompt :: "'s orchestrator \<Rightarrow> string \<Rightarrow> int \<Rightarrow> project \<Rightarrow> exn + string" where
  "build_master_prompt orch chapter_text chapter_index p =
     format_prompt orch (styleReferenceText orch) (glossary orch)
       (get_rolling_context p chapter_index) chapter_text"

text \<open>
  The \<open>except Exception as e\<close> clause of the loop body. An exception raised inside it
  leaves the loop.
\<close>

definition on_failure :: "int \<Rightarrow> exn \<Rightarrow> 's run_state \<Rightarrow> (exn + unit) \<times> 's run_state" where
  "on_failure index e w =
     (case update_chapter_state index ''failed'' None None (Some (str_exn e)) (proj w) of
        Inl e' \<Rightarrow> (Inl e', w)
      | Inr p' \<Rightarrow> (Inr (), w\<lparr>proj := p'\<rparr>))"

text \<open>One pass of the loop body of \<open>run_pipeline\<close> for the pending chapter \<open>chapter\<close>.\<close>

definition process_chapter ::
  "'s orchestrator \<Rightarrow> int \<times> chapter_data \<Rightarrow> 's run_state \<Rightarrow> (exn + unit) \<times> 's run_state" where
  "process_chapter orch chapter w =
     (let index = fst chapter;
          w0 = w\<lparr>console := console w @ [index]\<rparr>;
          chapter_text = original_text (snd chapter)
      in case build_master_prompt orch chapter_text index (proj w0) of
           Inl e \<Rightarrow> on_failure index e w0
         | Inr prompt \<Rightarrow>
             (case rewrite_chapter (ai_provider orch) (network orch) prompt (7 / 10) (ai w0) of
                (Inl e, a') \<Rightarrow> on_failure index e (w0\<lparr>ai := a'\<rparr>)
              | (Inr rewritten_text, a') \<Rightarrow>
                  (case generate_chapter_summary orch rewritten_text (w0\<lparr>ai := a'\<rparr>) of
                     (new_summary, w1) \<Rightarrow>
                       (case update_chapter_state index ''completed'' (Some rewritten_text)
                               (Some new_summary) None (proj w1) of
                          Inl e \<Rightarrow> on_failure index e w1
                        | Inr p' \<Rightarrow> (Inr (), w1\<lparr>proj := p'\<rparr>)))))"

fun rewrite_loop ::
  "'s orchestrator \<Rightarrow> (int \<times> chapter_data) list \<Rightarrow> 's run_state \<Rightarrow> (exn + unit) \<times> 's run_state" where
  "rewrite_loop orch [] w = (Inr (), w)"
| "rewrite_loop orch (chapter # rest) w =
     (case process_chapter orch chapter w of
        (Inl e, w') \<Rightarrow> (Inl e, w')
      | (Inr u, w') \<Rightarrow> rewrite_loop orch rest w')"

text \<open>
  The step before the loop: when the chapter before \<open>start_chapter\<close> exists and has no
  summary, one is generated from its rewritten text (or from its original text when
  there is no rewritten file) and stored under the chapter's present status.
\<close>

definition backfill :: "'s orchestrator \<Rightarrow> int \<Rightarrow> 's run_state \<Rightarrow> (exn + unit) \<times> 's run_state" where
  "backfill orch start_chapter w =
     (let prev_index = start_chapter - 1
      in if prev_index > 0
         then
           (case load_state (proj w) of
              None \<Rightarrow> (Inl (Exn KeyError ''chapters''), w)
            | Some st \<Rightarrow>
                (case map_of (chapters st) (py_str prev_index) of
                   None \<Rightarrow> (Inr (), w)
                 | Some prev_chap \<Rightarrow>
                     (if summary prev_chap = []
                      then
                        (let prev_text =
                               (case rewritten_txt (proj w) (rewritten_text_file prev_chap) of
                                  Some t \<Rightarrow> t
                                | None \<Rightarrow> original_text prev_chap)
                         in case generate_chapter_summary orch prev_text w of
                              (prev_summary, w1) \<Rightarrow>
                                (case update_chapter_state prev_index (status prev_chap) None
                                        (Some prev_summary) None (proj w1) of
                                   Inl e \<Rightarrow> (Inl e, w1)
                                 | Inr p' \<Rightarrow> (Inr (), w1\<lparr>proj := p'\<rparr>)))
                      else (Inr (), w))))
         else (Inr (), w))"

definition run_pipeline ::
  "'s orchestrator \<Rightarrow> int \<Rightarrow> int \<Rightarrow> 's run_state \<Rightarrow> (exn + unit) \<times> 's run_state" where
  "run_pipeline orch start_chapter end_chapter w =
     (case get_pending_chapters (max_chapters orch) start_chapter end_chapter (proj w) of
        Inl e \<Rightarrow> (Inl e, w)
      | Inr pending \<Rightarrow>
          (let pending_chapters = sort_key fst pending
           in case backfill orch start_chapter w of
                (Inl e, w1) \<Rightarrow> (Inl e, w1)
              | (Inr u, w1) \<Rightarrow> rewrite_loop orch pending_chapters w1))"





section \<open>Sample data\<close>

text \<open>
  A three-chapter project as \<open>create_new_project\<close> leaves it, the same project after
  chapter 1 was completed, and after chapter 2 failed.
\<close>

definition demo_source :: "extracted_chapter list" where
  "demo_source =
     [\<lparr>src_title = ''One'', src_original_text = ''Anna woke.'', src_id = ''c1.xhtml''\<rparr>,
      \<lparr>src_title = ''Two'', src_original_text = ''Anna left.'', src_id = ''c2.xhtml''\<rparr>,
      \<lparr>src_title = ''Three'', src_original_text = ''Anna came back.'', src_id = ''c3.xhtml''\<rparr>]"

definition empty_project :: project where
  "empty_project = \<lparr>state_file = None, rewritten_txt = Map.empty, state_saves = 0\<rparr>"

definition demo_project :: project where
  "demo_project = initialize_project_state ''demo'' demo_source empty_project"

definition demo_resumed :: project where
  "demo_resumed =
     projr (update_chapter_state 1 ''completed'' (Some ''Anna rose.'') (Some ''Anna is up.'') None
              demo_project)"

definition demo_failed :: project where
  "demo_failed = projr (update_chapter_state 2 ''failed'' None None (Some ''boom'') demo_project)"


definition fresh_session :: "'s \<Rightarrow> 's session" where
  "fresh_session s =
     \<lparr>service = s, rate_limiter = RateLimiter_init 80000 14 1 0, clock = 0, events = []\<rparr>"

text \<open>
  An OpenAI client whose service answers every request with one choice of content
  \<open>None\<close>, and whose encoder refuses the special token as \<open>tiktoken\<close> does.
\<close>

definition silent_openai :: "unit openai_client" where
  "silent_openai =
     \<lparr>chat_completions_create = (\<lambda>model messages temperature s. (Inr [None], s)),
      tokenizer_encode =
        (\<lambda>txt. if txt = ''<|endoftext|>''
               then Inl (Exn ValueError ''Encountered text corresponding to disallowed special token'')
               else Inr (map of_char txt))\<rparr>"












section \<open>Properties of the chapter store\<close>

lemmas demo_defs = demo_source_def empty_project_def demo_project_def demo_resumed_def demo_failed_def
  initialize_project_state_def initial_entry_def save_state_def load_state_def zfill3_def
  py_str_def digit_char_def get_chapter_def update_chapter_state_def numeral_2_eq_2

lemma get_chapter_update:
  assumes "get_chapter p i = Some ch"
  shows "\<exists>p'. update_chapter_state i st rw sm er p = Inr p' \<and>
     get_chapter p' i = Some (ch\<lparr>status := st,
          summary := (if truthy sm then the sm else summary ch),
          error := (if truthy er then er else error ch)\<rparr>) \<and>
     rewritten_txt p' = (if truthy rw then (rewritten_txt p)(rewritten_text_file ch \<mapsto> the rw) else rewritten_txt p)"
  using assms
  by (auto simp: update_chapter_state_def get_chapter_def load_state_def save_state_def
       Let_def update_conv' split: option.splits)

subsection \<open>Updating a chapter that is not in the map\<close>

text \<open>
  C10. When the state file exists and holds no record under the key of
  \<open>chapter_index\<close>, \<open>update_chapter_state\<close> raises nothing and returns the project as it
  was: no rewritten-text file is written, the state file is the same, and the count of
  \<open>save_state\<close> calls has not moved.
\<close>

theorem update_chapter_state_absent_key:
  assumes "load_state p \<noteq> None" and "get_chapter p chapter_index = None"
  shows "update_chapter_state chapter_index new_status rewritten_text new_summary new_error p = Inr p"
  using assms by (auto simp: update_chapter_state_def get_chapter_def)

theorem update_chapter_state_absent_key_witness:
  "load_state demo_project \<noteq> None \<and> get_chapter demo_project 7 = None \<and>
   update_chapter_state 7 ''completed'' (Some ''text'') (Some ''sum'') (Some ''err'') demo_project
     = Inr demo_project"
  using update_chapter_state_absent_key [of demo_project 7 "''completed''" "Some ''text''" "Some ''sum''" "Some ''err''"]
  by (simp add: demo_defs)

subsection \<open>The error field after a successful update\<close>

text \<open>
  C9, as amended. \<open>update_chapter_state\<close> never clears \<open>error\<close>: an update that passes
  no error (or an empty one) leaves the field as it was, so a chapter that failed before
  still shows its old failure message after it is marked completed.
\<close>

theorem update_chapter_state_keeps_error:
  assumes "get_chapter p chapter_index = Some ch" and "\<not> truthy new_error"
  shows "\<exists>p'. update_chapter_state chapter_index new_status rewritten_text new_summary new_error p = Inr p' \<and>
           map_option error (get_chapter p' chapter_index) = Some (error ch)"
  using get_chapter_update [OF assms(1), of new_status rewritten_text new_summary new_error] assms(2)
  by auto

theorem update_chapter_state_keeps_error_witness:
  "get_chapter demo_failed 2 \<noteq> None \<and> \<not> truthy None \<and>
   (\<exists>p'. update_chapter_state 2 ''completed'' (Some ''Anna went.'') (Some ''Anna is gone.'') None demo_failed = Inr p' \<and>
           map_option error (get_chapter p' 2) = Some (Some ''boom''))"
proof -
  have g: "get_chapter demo_failed 2 = Some (the (get_chapter demo_failed 2))"
    by (simp add: demo_defs)
  have e: "error (the (get_chapter demo_failed 2)) = Some ''boom''"
    by (simp add: demo_defs)
  show ?thesis
    using update_chapter_state_keeps_error [OF g, of None "''completed''" "Some ''Anna went.''" "Some ''Anna is gone.''"] g e
    by auto
qed

text \<open>
  The claim as first stated fails: chapter 2 of the sample project failed with
  \<open>boom\<close>, and completing it with a text and a summary leaves \<open>boom\<close> in place.
\<close>

theorem error_not_cleared_counterexample:
  "error (the (get_chapter demo_failed 2)) = Some ''boom'' \<and>
   \<not> isl (update_chapter_state 2 ''completed'' (Some ''Anna went.'') (Some ''Anna is gone.'') None demo_failed) \<and>
   error (the (get_chapter
      (projr (update_chapter_state 2 ''completed'' (Some ''Anna went.'') (Some ''Anna is gone.'') None demo_failed)) 2))
     = Some ''boom''"
  by (simp add: demo_defs)

subsection \<open>Rolling context\<close>

text \<open>
  C3, as amended. \<open>get_rolling_context k\<close> is the first-chapter sentinel for
  \<open>k \<le> 1\<close>; for \<open>k > 1\<close> it is the label \<open>Context from Previous Chapter: \<close> followed
  by the stored summary of chapter \<open>k - 1\<close> when that summary is not empty, and the
  no-summary sentinel when the chapter is missing or its summary is empty. The function
  returns a string only; it has no project to write to.
\<close>

theorem get_rolling_context_cases:
  "(k \<le> 1 \<longrightarrow> get_rolling_context p k = ''This is the first chapter.'') \<and>
   (1 < k \<and> get_chapter p (k - 1) = Some ch \<and> summary ch \<noteq> [] \<longrightarrow>
        get_rolling_context p k = ''Context from Previous Chapter: '' @ summary ch) \<and>
   (1 < k \<and> (get_chapter p (k - 1) = None \<or> get_chapter p (k - 1) = Some ch \<and> summary ch = [])
       \<longrightarrow> get_rolling_context p k = ''No summary available for the previous chapter.'')"
  by (auto simp: get_rolling_context_def get_chapter_def split: option.splits)

theorem get_rolling_context_cases_witness:
  "get_rolling_context demo_resumed 1 = ''This is the first chapter.'' \<and>
   get_rolling_context demo_resumed 2 = ''Context from Previous Chapter: Anna is up.'' \<and>
   get_rolling_context demo_resumed 3 = ''No summary available for the previous chapter.'' \<and>
   get_rolling_context demo_resumed 5 = ''No summary available for the previous chapter.''"
proof -
  let ?c1 = "the (get_chapter demo_resumed 1)" and ?c2 = "the (get_chapter demo_resumed 2)"
  have c1: "get_chapter demo_resumed (2 - 1) = Some ?c1"
    and s1: "summary ?c1 = ''Anna is up.''"
    and c2: "get_chapter demo_resumed (3 - 1) = Some ?c2"
    and s2: "summary ?c2 = []"
    and c4: "get_chapter demo_resumed (5 - 1) = None"
    by (simp_all add: demo_defs)
  have "get_rolling_context demo_resumed 1 = ''This is the first chapter.''"
    using get_rolling_context_cases [of 1 demo_resumed] by simp
  moreover have "get_rolling_context demo_resumed 2 = ''Context from Previous Chapter: Anna is up.''"
    using get_rolling_context_cases [of 2 demo_resumed ?c1] c1 s1 by simp
  moreover have "get_rolling_context demo_resumed 3 = ''No summary available for the previous chapter.''"
    using get_rolling_context_cases [of 3 demo_resumed ?c2] c2 s2 by simp
  moreover have "get_rolling_context demo_resumed 5 = ''No summary available for the previous chapter.''"
    using get_rolling_context_cases [of 5 demo_resumed] c4 by simp
  ultimately show ?thesis by simp
qed

text \<open>
  The claim as first stated fails: the result is not the stored summary character for
  character, it carries the label in front.
\<close>

theorem rolling_context_not_verbatim_counterexample:
  "summary (the (get_chapter demo_resumed 1)) = ''Anna is up.'' \<and>
   get_rolling_context demo_resumed 2 = ''Context from Previous Chapter: Anna is up.'' \<and>
   get_rolling_context demo_resumed 2 \<noteq> summary (the (get_chapter demo_resumed 1))"
  by (simp add: demo_defs get_rolling_context_def)

subsection \<open>Selecting the pending chapters\<close>

lemma parse_keys_Inr:
  "parse_keys ks = Inr parsed \<Longrightarrow> parsed = map (\<lambda>k. (projr (py_int k), k)) ks"
  by (induction ks arbitrary: parsed) (auto split: sum.splits)

lemma cap_Nil: "cap mx count [] = []"
  by (simp add: cap_def)

lemma cap_Cons_lt:
  assumes "mx = 0 \<or> count < mx"
  shows "cap mx count (x # xs) = x # cap mx (count + 1) xs"
proof (cases "mx = 0")
  case True
  then show ?thesis by (simp add: cap_def)
next
  case False
  with assms have lt: "count < mx" by simp
  have "nat (mx - count) = Suc (nat (mx - (count + 1)))"
    using lt by linarith
  then show ?thesis
    using False by (simp add: cap_def)
qed

lemma cap_ge: "\<not> (mx = 0 \<or> count < mx) \<Longrightarrow> cap mx count xs = []"
  by (auto simp: cap_def)

lemma pending_loop_eq:
  assumes "\<forall>(i, k) \<in> set ks. map_of chs k \<noteq> None"
  shows "pending_loop mx s e chs ks pending count =
         Inr (pending @ cap mx count
               (filter (\<lambda>(i, d). status d = ''pending'' \<and> in_range s e i)
                  (map (\<lambda>(i, k). (i, the (map_of chs k))) ks)))"
  using assms
proof (induction ks arbitrary: pending count)
  case Nil
  then show ?case by (simp add: cap_Nil)
next
  case (Cons a ks)
  obtain i k where a: "a = (i, k)" by (cases a)
  from Cons.prems a obtain d where d: "map_of chs k = Some d" by auto
  from Cons.prems have rest: "\<forall>(i, k) \<in> set ks. map_of chs k \<noteq> None" by simp
  note IH = Cons.IH [OF rest]
  show ?case
  proof (cases "status d = ''pending'' \<and> in_range s e i")
    case True
    then show ?thesis
      using a d IH by (auto simp: in_range_def cap_Cons_lt cap_ge)
  next
    case False
    then show ?thesis
      using a d IH by (auto simp: in_range_def)
  qed
qed

lemma map_insort_key:
  assumes "\<And>x. f (g x) = h x"
  shows "map g (insort_key h x xs) = insort_key f (g x) (map g xs)"
  by (induction xs) (simp_all add: assms)

lemma map_sort_key:
  assumes "\<And>x. f (g x) = h x"
  shows "map g (sort_key h xs) = sort_key f (map g xs)"
  by (induction xs) (simp_all add: map_insort_key [where f = f, OF assms])

lemma lookup_own_entries:
  assumes "distinct (map fst chs)"
  shows "map (\<lambda>(k, d). (F k, the (map_of chs k))) chs = map (\<lambda>(k, d). (F k, d)) chs"
  using assms by (intro map_cong) auto

lemma unique_indices_parsed:
  assumes "unique_indices st"
  shows "parse_keys (map fst (chapters st)) =
           Inr (map (\<lambda>k. (projr (py_int k), k)) (map fst (chapters st)))"
    and "distinct (map fst (indexed_chapters st))"
    and "distinct (map fst (chapters st))"
proof -
  from assms obtain parsed where p: "parse_keys (map fst (chapters st)) = Inr parsed"
    and d: "distinct (map fst parsed)"
    by (auto simp: unique_indices_def split: sum.splits)
  have eq: "parsed = map (\<lambda>k. (projr (py_int k), k)) (map fst (chapters st))"
    using parse_keys_Inr [OF p] .
  show "parse_keys (map fst (chapters st)) =
           Inr (map (\<lambda>k. (projr (py_int k), k)) (map fst (chapters st)))"
    using p eq by simp
  have m: "map fst parsed = map fst (indexed_chapters st)"
    by (simp add: eq indexed_chapters_def comp_def case_prod_unfold)
  show di: "distinct (map fst (indexed_chapters st))"
    using d m by simp
  have "map fst (indexed_chapters st) = map (\<lambda>k. projr (py_int k)) (map fst (chapters st))"
    by (simp add: indexed_chapters_def comp_def case_prod_unfold)
  with di show "distinct (map fst (chapters st))"
    by (metis distinct_map)
qed

lemma get_pending_chapters_eq:
  assumes "load_state p = Some st" and "unique_indices st"
  shows "get_pending_chapters mx s e p = Inr (pending_spec mx s e st)"
proof -
  let ?chs = "chapters st"
  let ?parsed = "map (\<lambda>k. (projr (py_int k), k)) (map fst ?chs)"
  let ?g = "\<lambda>(i, k). (i, the (map_of ?chs k))"
  note u = unique_indices_parsed [OF assms(2)]
  have dom: "\<forall>(i, k) \<in> set (sort_key fst ?parsed). map_of ?chs k \<noteq> None"
    by (auto simp: map_of_eq_None_iff image_iff)
  have "map ?g (sort_key fst ?parsed) = sort_key fst (map ?g ?parsed)"
    by (rule map_sort_key) auto
  also have "map ?g ?parsed = map (\<lambda>(k, d). (projr (py_int k), the (map_of ?chs k))) ?chs"
    by (simp add: comp_def case_prod_unfold)
  also have "\<dots> = indexed_chapters st"
    unfolding indexed_chapters_def by (rule lookup_own_entries [OF u(3)])
  finally have srt: "map ?g (sort_key fst ?parsed) = sort_key fst (indexed_chapters st)" .
  have loop: "pending_loop mx s e ?chs (sort_key fst ?parsed) [] 0 =
                Inr (pending_spec mx s e st)"
    unfolding pending_loop_eq [OF dom] srt
    by (simp add: pending_spec_def cap_def)
  have "get_pending_chapters mx s e p = pending_loop mx s e ?chs (sort_key fst ?parsed) [] 0"
    using assms(1) u(1) by (simp add: get_pending_chapters_def del: map_map)
  with loop show ?thesis by simp
qed

lemma pending_spec_sorted:
  assumes "unique_indices st"
  shows "sorted_wrt (<) (map fst (pending_spec mx s e st))"
proof -
  let ?all = "sort_key fst (indexed_chapters st)"
  have "sorted (map fst ?all)" by (rule sorted_sort_key)
  moreover have "distinct (map fst ?all)"
    using unique_indices_parsed(2) [OF assms] by (simp add: distinct_map inj_on_def) 
  ultimately have "sorted_wrt (<) (map fst ?all)"
    by (simp add: strict_sorted_iff)
  then have "sorted_wrt (\<lambda>a b. fst a < fst b) ?all"
    by (simp add: sorted_wrt_map)
  then have "sorted_wrt (\<lambda>a b. fst a < fst b) (pending_spec mx s e st)"
    by (simp add: pending_spec_def Let_def sorted_wrt_filter sorted_wrt_take)
  then show ?thesis by (simp add: sorted_wrt_map)
qed

text \<open>
  C4. On a stored state whose keys are numbers denoting distinct indices,
  \<open>get_pending_chapters\<close> returns exactly the selection the specification describes:
  the chapters that are pending and whose index lies between \<open>start_index\<close> and
  \<open>end_index\<close> (0 for no upper bound), in strictly ascending index order, cut to the first
  \<open>max_count\<close> of them (0 for all). No returned chapter is completed or failed.
\<close>

theorem get_pending_chapters_selects:
  assumes "load_state p = Some st" and "unique_indices st"
  shows "get_pending_chapters max_count start_index end_index p
           = Inr (pending_spec max_count start_index end_index st) \<and>
         sorted_wrt (<) (map fst (pending_spec max_count start_index end_index st)) \<and>
         (\<forall>(i, d) \<in> set (pending_spec max_count start_index end_index st).
            status d = ''pending'' \<and> status d \<noteq> ''completed'' \<and> status d \<noteq> ''failed'' \<and>
            in_range start_index end_index i \<and> (i, d) \<in> set (indexed_chapters st)) \<and>
         (max_count = 0 \<longrightarrow>
            set (pending_spec max_count start_index end_index st) =
              {(i, d). (i, d) \<in> set (indexed_chapters st) \<and> status d = ''pending'' \<and>
                 in_range start_index end_index i}) \<and>
         (max_count \<noteq> 0 \<longrightarrow>
            pending_spec max_count start_index end_index st =
              take (nat max_count) (pending_spec 0 start_index end_index st))"
proof -
  have mem: "\<forall>(i, d) \<in> set (pending_spec max_count start_index end_index st).
            status d = ''pending'' \<and> status d \<noteq> ''completed'' \<and> status d \<noteq> ''failed'' \<and>
            in_range start_index end_index i \<and> (i, d) \<in> set (indexed_chapters st)"
    by (auto simp: pending_spec_def Let_def dest: in_set_takeD)
  have all: "max_count = 0 \<longrightarrow>
            set (pending_spec max_count start_index end_index st) =
              {(i, d). (i, d) \<in> set (indexed_chapters st) \<and> status d = ''pending'' \<and>
                 in_range start_index end_index i}"
    by (auto simp: pending_spec_def)
  have capd: "max_count \<noteq> 0 \<longrightarrow>
            pending_spec max_count start_index end_index st =
              take (nat max_count) (pending_spec 0 start_index end_index st)"
    by (simp add: pending_spec_def)
  show ?thesis
    using get_pending_chapters_eq [OF assms] pending_spec_sorted [OF assms(2)] mem all capd
    by blast
qed

theorem get_pending_chapters_selects_witness:
  "load_state demo_resumed = Some (the (state_file demo_resumed)) \<and>
   unique_indices (the (state_file demo_resumed)) \<and>
   map (status \<circ> snd) (chapters (the (state_file demo_resumed)))
     = [''completed'', ''pending'', ''pending''] \<and>
   map_sum id (map fst) (get_pending_chapters 0 1 0 demo_resumed) = Inr [2, 3] \<and>
   map_sum id (map fst) (get_pending_chapters 1 1 0 demo_resumed) = Inr [2] \<and>
   map_sum id (map fst) (get_pending_chapters 0 3 3 demo_resumed) = Inr [3]"
proof -
  let ?st = "the (state_file demo_resumed)"
  have l: "load_state demo_resumed = Some ?st"
    by (simp add: demo_defs)
  have u: "unique_indices ?st"
    by (simp add: demo_defs unique_indices_def parse_digits_def is_digit_def digit_val_def)
  have s: "map (status \<circ> snd) (chapters ?st) = [''completed'', ''pending'', ''pending'']"
    by (simp add: demo_defs)
  have ix: "map fst (pending_spec 0 1 0 ?st) = [2, 3]"
     "map fst (pending_spec 1 1 0 ?st) = [2]"
     "map fst (pending_spec 0 3 3 ?st) = [3]"
    by (simp_all add: demo_defs pending_spec_def indexed_chapters_def in_range_def
          parse_digits_def is_digit_def digit_val_def)
  show ?thesis
    using get_pending_chapters_selects [OF l u, of 0 1 0]
      get_pending_chapters_selects [OF l u, of 1 1 0]
      get_pending_chapters_selects [OF l u, of 0 3 3] l u s ix
    by simp
qed

section \<open>Properties of the rate limiter\<close>

lemma refill_fields [simp]:
  "tpm_capacity (refill t r) = tpm_capacity r"
  "refill_rate_per_second (refill t r) = refill_rate_per_second r"
  "last_refill_time (refill t r) = t"
  "last_call_time (refill t r) = last_call_time r"
  "rpm_delay (refill t r) = rpm_delay r"
  by (simp_all add: refill_def Let_def)





lemma deduct_fields [simp]:
  "tpm_capacity (fst (deduct n lat rc)) = tpm_capacity (fst rc)"
  "refill_rate_per_second (fst (deduct n lat rc)) = refill_rate_per_second (fst rc)"
  "last_refill_time (fst (deduct n lat rc)) = last_refill_time (fst rc)"
  "tokens (fst (deduct n lat rc)) = tokens (fst rc) - real_of_int n"
  "snd (deduct n lat rc) = snd rc + step lat"
  by (simp_all add: deduct_def Let_def)








section \<open>Properties of the retry wrapper\<close>





lemma retry_loop_no_attempts:
  "retry_attempts P < 0 \<Longrightarrow>
   retry_loop P prompt temperature 0 w =
     (Inl (Exn RuntimeError ''rewrite_chapter failed to return a response after all retries.''), w)"
  by (subst retry_loop.simps) simp



section \<open>Properties of the concrete providers\<close>

subsection \<open>Empty and blocked results\<close>

text \<open>
  Gemini and AI Studio raise \<open>ValueError\<close> when the response has no parts.
\<close>

lemma genai_empty_parts_raises:
  assumes "generate_content_async model prompt temperature s = (Inr response, s')"
    and "parts response = []"
  shows "\<exists>msg. genai_perform_rewrite label model prompt temperature s = (Inl (Exn ValueError msg), s')"
  using assms by (simp add: genai_perform_rewrite_def Let_def)

text \<open>
  C7 fails on the OpenAI provider: a response whose content is \<open>None\<close> comes back from
  \<open>_perform_rewrite\<close> as the empty string, a success, and \<open>rewrite_chapter\<close> hands it
  on after a single attempt.
\<close>

theorem openai_empty_content_is_success:
  "perform_rewrite (OpenAIProvider silent_openai ''gpt-4o'' 3 2) ''Rewrite this.'' (7 / 10) () = (Inr [], ()) \<and>
   fst (rewrite_chapter (OpenAIProvider silent_openai ''gpt-4o'' 3 2) no_latency ''Rewrite this.'' (7 / 10)
          (fresh_session ())) = Inr [] \<and>
   events (snd (rewrite_chapter (OpenAIProvider silent_openai ''gpt-4o'' 3 2) no_latency ''Rewrite this.''
          (7 / 10) (fresh_session ()))) = [Request ''Rewrite this.'' (7 / 10)]"
proof -
  let ?P = "OpenAIProvider silent_openai ''gpt-4o'' 3 2"
  have p: "perform_rewrite ?P ''Rewrite this.'' (7 / 10) () = (Inr [], ())"
    by (simp add: OpenAIProvider_def openai_perform_rewrite_def silent_openai_def)
  have c: "count_tokens ?P ''Rewrite this.'' () = (Inr 13, ())"
    by (simp add: OpenAIProvider_def openai_count_tokens_def silent_openai_def)
  have w: "fst (wait 26 no_latency (RateLimiter_init 80000 14 1 0, 0)) = Inr ()"
    by (simp add: wait_def no_latency_def RateLimiter_init_def refill_def deduct_def Let_def)
  have r: "retry_attempts ?P = 3"
    by (simp add: OpenAIProvider_def)
  have l: "retry_loop ?P ''Rewrite this.'' (7 / 10) 0 w0 =
             (Inr [], w0\<lparr>service := (), events := events w0 @ [Request ''Rewrite this.'' (7 / 10)]\<rparr>)"
    for w0 :: "unit session"
    by (subst retry_loop.simps) (simp add: p r)
  have rc: "rewrite_chapter ?P no_latency ''Rewrite this.'' (7 / 10) (fresh_session ()) =
      retry_loop ?P ''Rewrite this.'' (7 / 10) 0
        ((fresh_session ())\<lparr>service := (),
            rate_limiter := fst (snd (snd (wait 26 no_latency (RateLimiter_init 80000 14 1 0, 0)))),
            clock := snd (snd (snd (wait 26 no_latency (RateLimiter_init 80000 14 1 0, 0))))\<rparr>)"
    using w by (auto simp: rewrite_chapter_def c fresh_session_def split: prod.splits sum.splits)
  show ?thesis
    unfolding rc l using p by (simp add: fresh_session_def)
qed

subsection \<open>Token counting\<close>

text \<open>
  Gemini and AI Studio never raise from \<open>count_tokens\<close>; when the service call fails
  they return \<open>len(text) // 4\<close>.
\<close>

lemma genai_count_tokens_never_raises:
  "\<not> isl (fst (genai_count_tokens model txt s))"
  by (simp add: genai_count_tokens_def split: prod.splits sum.splits)

lemma genai_count_tokens_fallback:
  "count_tokens_async model txt s = (Inl e, s') \<Longrightarrow>
   genai_count_tokens model txt s = (Inr (int (length txt) div 4), s')"
  by (simp add: genai_count_tokens_def)

text \<open>
  C8 fails on the OpenAI provider: \<open>count_tokens\<close> has no handler, so an exception of
  the encoder leaves the method as it is.
\<close>

theorem openai_count_tokens_propagates:
  "count_tokens (OpenAIProvider silent_openai ''gpt-4o'' 3 2) ''<|endoftext|>'' () =
     (Inl (Exn ValueError ''Encountered text corresponding to disallowed special token''), ())"
  by (simp add: OpenAIProvider_def openai_count_tokens_def silent_openai_def)

section \<open>Properties of the orchestrator\<close>


subsection \<open>The invariant of the chapter records\<close>





lemma generate_chapter_summary_proj [simp]:
  "proj (snd (generate_chapter_summary orch t w)) = proj w"
  "console (snd (generate_chapter_summary orch t w)) = console w"
  by (auto simp: generate_chapter_summary_def split: prod.splits sum.splits)















subsection \<open>A failed chapter and the rest of the run\<close>

lemma update_chapter_state_present:
  assumes "load_state p \<noteq> None"
  shows "\<exists>p'. update_chapter_state i st rw sm er p = Inr p' \<and> load_state p' \<noteq> None"
  using assms
  by (auto simp: update_chapter_state_def load_state_def save_state_def Let_def split: option.splits)

lemma on_failure_returns:
  assumes "load_state (proj w) \<noteq> None"
  shows "fst (on_failure i e w) = Inr () \<and> load_state (proj (snd (on_failure i e w))) \<noteq> None \<and>
         console (snd (on_failure i e w)) = console w"
proof -
  from update_chapter_state_present [OF assms] obtain p'
    where "update_chapter_state i ''failed'' None None (Some (str_exn e)) (proj w) = Inr p'"
      and "load_state p' \<noteq> None"
    by blast
  then show ?thesis by (simp add: on_failure_def)
qed

lemma process_chapter_returns:
  assumes st: "load_state (proj w) \<noteq> None"
  shows "fst (process_chapter orch c w) = Inr () \<and>
         load_state (proj (snd (process_chapter orch c w))) \<noteq> None \<and>
         console (snd (process_chapter orch c w)) = console w @ [fst c]"
proof -
  define w0 where "w0 = w\<lparr>console := console w @ [fst c]\<rparr>"
  have st0: "load_state (proj w0) \<noteq> None" and c0: "console w0 = console w @ [fst c]"
    using st by (simp_all add: w0_def)
  show ?thesis
  proof (cases "build_master_prompt orch (original_text (snd c)) (fst c) (proj w0)")
    case (Inl e)
    with on_failure_returns [OF st0, of "fst c" e] c0 show ?thesis
      by (simp add: process_chapter_def w0_def Let_def)
  next
    case (Inr prompt)
    obtain r a' where rw: "rewrite_chapter (ai_provider orch) (network orch) prompt (7 / 10) (ai w0) = (r, a')"
      by (cases "rewrite_chapter (ai_provider orch) (network orch) prompt (7 / 10) (ai w0)")
    define w1 where "w1 = w0\<lparr>ai := a'\<rparr>"
    have st1: "load_state (proj w1) \<noteq> None" and c1: "console w1 = console w @ [fst c]"
      using st0 c0 by (simp_all add: w1_def)
    show ?thesis
    proof (cases r)
      case (Inl e)
      with on_failure_returns [OF st1, of "fst c" e] c1 Inr rw show ?thesis
        by (simp add: process_chapter_def w0_def w1_def Let_def)
    next
      case r: (Inr t)
      obtain sm w2 where g: "generate_chapter_summary orch t w1 = (sm, w2)"
        by (cases "generate_chapter_summary orch t w1")
      have pw2: "proj w2 = proj w1" "console w2 = console w1"
        using generate_chapter_summary_proj [of orch t w1] g by simp_all
      from update_chapter_state_present [of "proj w2" "fst c" "''completed''" "Some t" "Some sm" None]
        st1 pw2
      obtain p' where u: "update_chapter_state (fst c) ''completed'' (Some t) (Some sm) None (proj w2) = Inr p'"
        and sp: "load_state p' \<noteq> None"
        by auto
      show ?thesis
        using Inr rw r g u sp pw2 c1
        by (simp add: process_chapter_def w0_def w1_def Let_def)
    qed
  qed
qed

lemma rewrite_loop_returns:
  assumes "load_state (proj w) \<noteq> None"
  shows "fst (rewrite_loop orch chs w) = Inr () \<and>
         load_state (proj (snd (rewrite_loop orch chs w))) \<noteq> None \<and>
         console (snd (rewrite_loop orch chs w)) = console w @ map fst chs"
  using assms
proof (induction chs arbitrary: w)
  case Nil
  then show ?case by simp
next
  case (Cons c chs)
  obtain r w' where p: "process_chapter orch c w = (r, w')"
    by (cases "process_chapter orch c w")
  from process_chapter_returns [OF Cons.prems, of orch c] p
  have r: "r = Inr ()" and st': "load_state (proj w') \<noteq> None" and c': "console w' = console w @ [fst c]"
    by simp_all
  show ?case
    using Cons.IH [OF st'] by (simp add: p r c')
qed













lemma backfill_returns:
  assumes "load_state (proj w) \<noteq> None"
  shows "fst (backfill orch start w) = Inr () \<and>
         load_state (proj (snd (backfill orch start w))) \<noteq> None \<and>
         console (snd (backfill orch start w)) = console w"
proof -
  from assms obtain st where st: "load_state (proj w) = Some st" by auto
  show ?thesis
  proof (cases "start - 1 > 0 \<and> (\<exists>prev. map_of (chapters st) (py_str (start - 1)) = Some prev \<and> summary prev = [])")
    case False
    then show ?thesis
      using st by (auto simp: backfill_def Let_def split: option.splits)
  next
    case True
    then obtain prev where m: "map_of (chapters st) (py_str (start - 1)) = Some prev"
      and e: "summary prev = []" and pos: "start - 1 > 0"
      by blast
    define prev_text where "prev_text =
         (case rewritten_txt (proj w) (rewritten_text_file prev) of Some t \<Rightarrow> t | None \<Rightarrow> original_text prev)"
    obtain sm w1 where g: "generate_chapter_summary orch prev_text w = (sm, w1)"
      by (cases "generate_chapter_summary orch prev_text w")
    have pw1: "proj w1 = proj w" "console w1 = console w"
      using generate_chapter_summary_proj [of orch prev_text w] g by simp_all
    from update_chapter_state_present [of "proj w1" "start - 1" "status prev" None "Some sm" None] assms pw1
    obtain p' where u: "update_chapter_state (start - 1) (status prev) None (Some sm) None (proj w1) = Inr p'"
      and sp: "load_state p' \<noteq> None"
      by auto
    show ?thesis
      using pos st m e g u sp pw1 by (simp add: backfill_def Let_def prev_text_def)
  qed
qed

lemma run_pipeline_starts_all:
  assumes "load_state (proj w) \<noteq> None"
    and "get_pending_chapters (max_chapters orch) start_chapter end_chapter (proj w) = Inr pending"
  shows "fst (run_pipeline orch start_chapter end_chapter w) = Inr () \<and>
         console (snd (run_pipeline orch start_chapter end_chapter w)) =
           console w @ map fst (sort_key fst pending)"
proof -
  obtain r w1 where b: "backfill orch start_chapter w = (r, w1)"
    by (cases "backfill orch start_chapter w")
  from backfill_returns [OF assms(1), of orch start_chapter] b
  have r: "r = Inr ()" and st1: "load_state (proj w1) \<noteq> None" and c1: "console w1 = console w"
    by simp_all
  show ?thesis
    using rewrite_loop_returns [OF st1, of orch "sort_key fst pending"]
    by (simp add: run_pipeline_def assms(2) b r c1 Let_def)
qed






end
